theory Spec2Isabelle
  imports Main
begin

section \<open>Data model\<close>

text \<open>
  The resolvers of \<^verbatim>\<open>src/server/src/resolvers/user.ts\<close> work on four pieces of shared
  state: the user table, the Redis instance holding the password-reset tokens, the
  session of the current request, and the response (cookies, outgoing mail).
\<close>

text \<open>
  Modelled from the spec: the entity \<^verbatim>\<open>entities/User\<close> is not among the sources; the spec
  gives its columns as a numeric id, a username, an email and a password digest.
\<close>

record User =
  u_id :: int
  u_username :: string
  u_email :: string
  u_password :: string

record FieldError =
  field :: string
  fe_message :: string

record UserMutationResponse =
  code :: int
  success :: bool
  message :: string
  errors :: "FieldError list option"
  user :: "User option"

record RegisterInput =
  ri_username :: string
  ri_email :: string
  ri_password :: string

record LoginInput =
  usernameOrEmail :: string
  li_password :: string

record ForgotPasswordInput =
  fp_email :: string

record ChangePasswordInput =
  newPassword :: string

text \<open>
  A JavaScript string is modelled as the list of its characters, and \<^verbatim>\<open>.length\<close> as the
  length of that list.
\<close>

text \<open>
  The world a resolver runs in. \<open>users\<close> is the table in row order. \<open>cache\<close> is Redis:
  a key holds a value and the instant (in seconds) at which it expires; \<open>clock\<close> is the
  current instant. \<open>session_userId\<close> is \<^verbatim>\<open>req.session.userId\<close>, \<open>cookies\<close> the cookie names
  the client holds, \<open>outbox\<close> the mails handed to \<^verbatim>\<open>sendEmail\<close> (recipient, html).
\<close>

record world =
  users :: "User list"
  cache :: "string \<rightharpoonup> (int \<times> nat)"
  clock :: nat
  session_userId :: "int option"
  cookies :: "string list"
  outbox :: "(string \<times> string) list"

text \<open>
  The calls that leave the resolver. Each of them may reject (throw); which ones do in a
  given call is the \<open>faults\<close> field of the environment.
\<close>

datatype collaborator =
  DbFind | DbSave | DbUpdate | Argon2Hash | Argon2Verify
  | RedisGet | RedisSet | RedisDel | SendEmail | SessionDestroy

text \<open>
  The fixed parts of the program that the resolvers import and that are not among the
  sources: the two constants of \<^verbatim>\<open>constants.ts\<close>, the validator of
  \<^verbatim>\<open>utils/validateRegisterInput\<close> (\<open>None\<close> is its \<^verbatim>\<open>null\<close>; otherwise the message and the
  field errors it spreads into the response), and \<^verbatim>\<open>argon2.verify\<close>. They are parameters.
\<close>

record config =
  COOKIE_NAME :: string
  FORGET_PASSWORD_PREFIX :: string
  validateRegisterInput :: "RegisterInput \<Rightarrow> (string \<times> FieldError list) option"
  argon2_verify :: "string \<Rightarrow> string \<Rightarrow> bool"

text \<open>
  What one call draws from outside: the faults of its collaborators, the UUID that
  \<^verbatim>\<open>v4()\<close> returns, the salted digest \<^verbatim>\<open>argon2.hash\<close> returns, the row the table
  returns when several rows satisfy a \<^verbatim>\<open>where\<close> with alternatives (\<open>pick\<close>, which is
  given, for each alternative in turn, the rows that satisfy it), and what the table does
  when it is asked for an id that is not a finite number. The source determines none of
  these.
\<close>

record env =
  faults :: "collaborator \<Rightarrow> string option"
  v4 :: string
  argon2_hash :: "string \<Rightarrow> string"
  pick :: "User list list \<Rightarrow> User option"
  findOne_NaN :: "User list \<Rightarrow> string + User option"
  update_NaN :: "string \<Rightarrow> User list \<Rightarrow> string + User list"

section \<open>Collaborators\<close>

definition attempt :: "env \<Rightarrow> collaborator \<Rightarrow> 'a \<Rightarrow> string + 'a" where
  "attempt e c x = (case faults e c of Some err \<Rightarrow> Inl err | None \<Rightarrow> Inr x)"

subsection \<open>The user table\<close>

text \<open>
  \<^verbatim>\<open>User.findOne(conditions)\<close> on one column, the email or the username: the row with that
  value. The spec has both columns unique, so at most one row has it; on a table that
  breaks this the model takes the first such row.
\<close>

definition User_findOne :: "env \<Rightarrow> (User \<Rightarrow> bool) \<Rightarrow> world \<Rightarrow> string + User option" where
  "User_findOne e P w = attempt e DbFind (find P (users w))"

text \<open>
  \<^verbatim>\<open>User.findOne({ where: [c1, c2] })\<close>: one of the rows that satisfy \<open>c1\<close> or \<open>c2\<close>, if
  there is any. Which one is the table's choice, \<open>pick\<close>; an answer of \<open>pick\<close> that is
  not among these rows is replaced by the first row of the first alternative that has
  one.
\<close>

definition first_row :: "User list \<Rightarrow> User option" where
  "first_row us = (case us of [] \<Rightarrow> None | x # _ \<Rightarrow> Some x)"

definition User_findOne_where ::
  "env \<Rightarrow> (User \<Rightarrow> bool) list \<Rightarrow> world \<Rightarrow> string + User option" where
  "User_findOne_where e conds w =
     (let groups = map (\<lambda>P. filter P (users w)) conds;
          candidates = concat groups
      in attempt e DbFind
           (case pick e groups of
              None \<Rightarrow> first_row candidates
            | Some x \<Rightarrow> if x \<in> set candidates then Some x else first_row candidates))"

text \<open>
  \<^verbatim>\<open>User.findOne(id)\<close> with the number \<^verbatim>\<open>parseInt\<close> returned, which may be no finite
  number (\<open>None\<close>).
\<close>

definition User_findOne_id :: "env \<Rightarrow> int option \<Rightarrow> world \<Rightarrow> string + User option" where
  "User_findOne_id e n w =
     (case n of
        None \<Rightarrow> (case faults e DbFind of Some err \<Rightarrow> Inl err | None \<Rightarrow> findOne_NaN e (users w))
      | Some i \<Rightarrow> User_findOne e (\<lambda>u. u_id u = i) w)"

text \<open>\<^verbatim>\<open>User.update({ id }, { password })\<close>: every row with that id gets the digest.\<close>

definition set_password :: "int \<Rightarrow> string \<Rightarrow> User \<Rightarrow> User" where
  "set_password i d u = (if u_id u = i then u\<lparr>u_password := d\<rparr> else u)"

definition User_update :: "env \<Rightarrow> int option \<Rightarrow> string \<Rightarrow> world \<Rightarrow> string + world" where
  "User_update e n d w =
     (case faults e DbUpdate of
        Some err \<Rightarrow> Inl err
      | None \<Rightarrow>
          (case n of
             None \<Rightarrow> (case update_NaN e d (users w) of
                        Inl err \<Rightarrow> Inl err
                      | Inr us \<Rightarrow> Inr (w\<lparr>users := us\<rparr>))
           | Some i \<Rightarrow> Inr (w\<lparr>users := map (set_password i d) (users w)\<rparr>)))"

text \<open>
  Modelled from the spec: \<^verbatim>\<open>newUser.save()\<close> inserts the row and the table gives it its
  numeric id; the model takes the next id above those in use.
\<close>

definition next_id :: "User list \<Rightarrow> int" where
  "next_id us = 1 + fold max (map u_id us) 0"

definition User_save :: "env \<Rightarrow> string \<Rightarrow> string \<Rightarrow> string \<Rightarrow> world \<Rightarrow> string + (User \<times> world)" where
  "User_save e name digest mail w =
     (let newUser = \<lparr>u_id = next_id (users w), u_username = name,
                     u_email = mail, u_password = digest\<rparr>
      in attempt e DbSave (newUser, w\<lparr>users := users w @ [newUser]\<rparr>))"

subsection \<open>Redis\<close>

text \<open>\<^verbatim>\<open>redis.get(key)\<close>: the value, or \<^verbatim>\<open>null\<close> when the key is absent or has expired.\<close>

definition live :: "world \<Rightarrow> string \<Rightarrow> int option" where
  "live w key =
     (case cache w key of
        None \<Rightarrow> None
      | Some (v, expires) \<Rightarrow> if clock w < expires then Some v else None)"

definition redis_get :: "env \<Rightarrow> string \<Rightarrow> world \<Rightarrow> string + int option" where
  "redis_get e key w = attempt e RedisGet (live w key)"

text \<open>\<^verbatim>\<open>redis.set(key, value, "EX", n)\<close>: the key expires \<open>n\<close> seconds from now.\<close>

definition redis_set_EX :: "env \<Rightarrow> string \<Rightarrow> int \<Rightarrow> nat \<Rightarrow> world \<Rightarrow> string + world" where
  "redis_set_EX e key v n w =
     attempt e RedisSet (w\<lparr>cache := (cache w)(key \<mapsto> (v, clock w + n))\<rparr>)"

definition redis_del :: "env \<Rightarrow> string \<Rightarrow> world \<Rightarrow> string + world" where
  "redis_del e key w = attempt e RedisDel (w\<lparr>cache := (cache w)(key := None)\<rparr>)"

subsection \<open>argon2 and mail\<close>

definition argon2_hash_call :: "env \<Rightarrow> string \<Rightarrow> string + string" where
  "argon2_hash_call e p = attempt e Argon2Hash (argon2_hash e p)"

definition argon2_verify_call :: "config \<Rightarrow> env \<Rightarrow> string \<Rightarrow> string \<Rightarrow> string + bool" where
  "argon2_verify_call c e digest p = attempt e Argon2Verify (argon2_verify c digest p)"

definition sendEmail :: "env \<Rightarrow> string \<Rightarrow> string \<Rightarrow> world \<Rightarrow> string + world" where
  "sendEmail e to html w = attempt e SendEmail (w\<lparr>outbox := outbox w @ [(to, html)]\<rparr>)"

section \<open>JavaScript built-ins\<close>

text \<open>
  A model string holds characters of code 0 to 255. Of these JavaScript counts as white
  space the tab, the line feed, the vertical tab, the form feed, the carriage return,
  the space and the no-break space.
\<close>

definition is_white_space :: "char \<Rightarrow> bool" where
  "is_white_space ch = (of_char ch \<in> set [32, 9, 10, 11, 12, 13, 160 :: nat])"

definition digit_value :: "nat \<Rightarrow> char \<Rightarrow> nat option" where
  "digit_value radix ch =
     (let n = (of_char ch :: nat);
          d = (if 48 \<le> n \<and> n \<le> 57 then Some (n - 48)
               else if 97 \<le> n \<and> n \<le> 122 then Some (n - 87)
               else if 65 \<le> n \<and> n \<le> 90 then Some (n - 55)
               else None)
      in case d of None \<Rightarrow> None | Some v \<Rightarrow> if v < radix then Some v else None)"

fun parse_digits :: "nat \<Rightarrow> string \<Rightarrow> nat option \<Rightarrow> nat option" where
  "parse_digits radix [] acc = acc"
| "parse_digits radix (ch # cs) acc =
     (case digit_value radix ch of
        None \<Rightarrow> acc
      | Some d \<Rightarrow> parse_digits radix cs
                   (Some (radix * (case acc of None \<Rightarrow> 0 | Some a \<Rightarrow> a) + d)))"

text \<open>
  A JavaScript number is a double. An integer below \<open>2 ^ 53\<close> is one; a larger one is
  rounded to 53 significant bits, a tie going to the even neighbour, and from
  \<open>2 ^ 1024\<close> on the result is \<^verbatim>\<open>Infinity\<close>, here \<open>None\<close>.
\<close>

fun bit_length :: "nat \<Rightarrow> nat" where
  "bit_length n = (if n = 0 then 0 else Suc (bit_length (n div 2)))"

definition to_double :: "nat \<Rightarrow> nat option" where
  "to_double n =
     (if n < 2 ^ 53 then Some n
      else let k = bit_length n - 53;
               q = n div 2 ^ k;
               r = n mod 2 ^ k;
               m = (if 2 ^ k < 2 * r \<or> (2 * r = 2 ^ k \<and> odd q) then q + 1 else q)
           in if 2 ^ 1024 \<le> m * 2 ^ k then None else Some (m * 2 ^ k))"

text \<open>
  \<^verbatim>\<open>parseInt(s)\<close> without a radix: leading white space is skipped, one sign is read, a
  prefix \<^verbatim>\<open>0x\<close> or \<^verbatim>\<open>0X\<close> selects radix 16, and the longest run of digits of the radix
  is the value, as a double. The result is \<open>None\<close> when it is no finite number:
  \<^verbatim>\<open>NaN\<close> when there is no digit, \<^verbatim>\<open>Infinity\<close> when the digits exceed every double.
\<close>

definition parseInt :: "string \<Rightarrow> int option" where
  "parseInt s =
     (let S = dropWhile is_white_space s;
          sign = (if take 1 S = ''-'' then - 1 else 1 :: int);
          S1 = (if take 1 S = ''+'' \<or> take 1 S = ''-'' then drop 1 S else S);
          hex = (take 2 S1 = ''0x'' \<or> take 2 S1 = ''0X'');
          radix = (if hex then 16 else 10);
          S2 = (if hex then drop 2 S1 else S1)
      in case parse_digits radix S2 None of
           None \<Rightarrow> None
         | Some n \<Rightarrow> map_option (\<lambda>d. sign * int d) (to_double n))"

text \<open>The decimal rendering of an id inside a template literal.\<close>

fun nat_toString :: "nat \<Rightarrow> string" where
  "nat_toString n =
     (if n < 10 then [char_of (48 + n)]
      else nat_toString (n div 10) @ [char_of (48 + n mod 10)])"

definition number_toString :: "int \<Rightarrow> string" where
  "number_toString i = (if i < 0 then ''-'' @ nat_toString (nat (- i)) else nat_toString (nat i))"

text \<open>
  A promise is pending until it is settled, and it settles once: \<^verbatim>\<open>resolve\<close> and
  \<^verbatim>\<open>reject\<close> on a settled promise do nothing.
\<close>

datatype 'a promise = Pending | Fulfilled 'a | Rejected string

definition resolve :: "'a \<Rightarrow> 'a promise \<Rightarrow> 'a promise" where
  "resolve v p = (case p of Pending \<Rightarrow> Fulfilled v | Fulfilled x \<Rightarrow> p | Rejected err \<Rightarrow> p)"

definition reject :: "string \<Rightarrow> 'a promise \<Rightarrow> 'a promise" where
  "reject err p = (case p of Pending \<Rightarrow> Rejected err | Fulfilled x \<Rightarrow> p | Rejected err' \<Rightarrow> p)"

section \<open>The resolvers\<close>

definition internal_server_error :: "string \<Rightarrow> UserMutationResponse" where
  "internal_server_error err =
     \<lparr>code = 500, success = False, message = ''Internal server error '' @ err,
      errors = None, user = None\<rparr>"

subsection \<open>register\<close>

definition register_try ::
  "config \<Rightarrow> env \<Rightarrow> RegisterInput \<Rightarrow> world \<Rightarrow> (string + UserMutationResponse) \<times> world" where
  "register_try c e registerInput w =
     (let name = ri_username registerInput;
          mail = ri_email registerInput;
          pw = ri_password registerInput
      in case User_findOne_where e
                [\<lambda>u. u_username u = name, \<lambda>u. u_email u = mail] w of
           Inl err \<Rightarrow> (Inl err, w)
         | Inr (Some existingUser) \<Rightarrow>
             (Inr \<lparr>code = 400, success = False, message = ''Duplicated username or email'',
                   errors = Some [\<lparr>field = (if u_username existingUser = name
                                             then ''username'' else ''email''),
                                    fe_message = (if u_username existingUser = name
                                                  then ''Username'' else ''Email'')
                                                 @ '' already taken''\<rparr>],
                   user = None\<rparr>, w)
         | Inr None \<Rightarrow>
             (case argon2_hash_call e pw of
                Inl err \<Rightarrow> (Inl err, w)
              | Inr hashedPassword \<Rightarrow>
                  (case User_save e name hashedPassword mail w of
                     Inl err \<Rightarrow> (Inl err, w)
                   | Inr (newUser, w1) \<Rightarrow>
                       (Inr \<lparr>code = 200, success = True,
                             message = ''User registration successful'',
                             errors = None, user = Some newUser\<rparr>,
                        w1\<lparr>session_userId := Some (u_id newUser)\<rparr>))))"

definition register ::
  "config \<Rightarrow> env \<Rightarrow> RegisterInput \<Rightarrow> world \<Rightarrow> UserMutationResponse \<times> world" where
  "register c e registerInput w =
     (case validateRegisterInput c registerInput of
        Some (m, es) \<Rightarrow>
          (\<lparr>code = 400, success = False, message = m, errors = Some es, user = None\<rparr>, w)
      | None \<Rightarrow>
          (case register_try c e registerInput w of
             (Inr r, w') \<Rightarrow> (r, w')
           | (Inl err, w') \<Rightarrow> (internal_server_error err, w')))"


subsection \<open>login\<close>

definition login_try ::
  "config \<Rightarrow> env \<Rightarrow> LoginInput \<Rightarrow> world \<Rightarrow> (string + UserMutationResponse) \<times> world" where
  "login_try c e loginInput w =
     (let name = usernameOrEmail loginInput
      in case User_findOne e (if CHR ''@'' \<in> set name
                              then (\<lambda>u. u_email u = name)
                              else (\<lambda>u. u_username u = name)) w of
           Inl err \<Rightarrow> (Inl err, w)
         | Inr None \<Rightarrow>
             (Inr \<lparr>code = 400, success = False, message = ''User not found'',
                   errors = Some [\<lparr>field = ''usernameOrEmail'',
                                    fe_message = ''Username or email incorrect''\<rparr>],
                   user = None\<rparr>, w)
         | Inr (Some existingUser) \<Rightarrow>
             (case argon2_verify_call c e (u_password existingUser) (li_password loginInput) of
                Inl err \<Rightarrow> (Inl err, w)
              | Inr passwordValid \<Rightarrow>
                  if \<not> passwordValid
                  then (Inr \<lparr>code = 400, success = False, message = ''Wrong password'',
                             errors = Some [\<lparr>field = ''password'',
                                              fe_message = ''Wrong password''\<rparr>],
                             user = None\<rparr>, w)
                  else (Inr \<lparr>code = 200, success = True,
                             message = ''Logged in successfully'',
                             errors = None, user = Some existingUser\<rparr>,
                        w\<lparr>session_userId := Some (u_id existingUser)\<rparr>)))"

definition login ::
  "config \<Rightarrow> env \<Rightarrow> LoginInput \<Rightarrow> world \<Rightarrow> UserMutationResponse \<times> world" where
  "login c e loginInput w =
     (case login_try c e loginInput w of
        (Inr r, w') \<Rightarrow> (r, w')
      | (Inl err, w') \<Rightarrow> (internal_server_error err, w'))"

subsection \<open>logout\<close>

text \<open>
  The resolver returns a promise of its own making. Its executor clears the cookie and
  then has the session destroyed; the callback settles the promise, with \<^verbatim>\<open>false\<close> and
  then (to no effect) \<^verbatim>\<open>true\<close> on an error, with \<^verbatim>\<open>true\<close> otherwise. The executor
  never calls \<^verbatim>\<open>_reject\<close>. A destroy that fails leaves the session record where it was.
\<close>

definition logout :: "config \<Rightarrow> env \<Rightarrow> world \<Rightarrow> bool promise \<times> world" where
  "logout c e w =
     (let w1 = w\<lparr>cookies := removeAll (COOKIE_NAME c) (cookies w)\<rparr>
      in case faults e SessionDestroy of
           Some err \<Rightarrow> (resolve True (resolve False Pending), w1)
         | None \<Rightarrow> (resolve True Pending, w1\<lparr>session_userId := None\<rparr>))"

subsection \<open>forgotPassword\<close>

text \<open>
  The resolver has no \<^verbatim>\<open>try\<close>: a collaborator that rejects makes the resolver's promise
  reject, which is \<open>Inl\<close> here.
\<close>

definition reset_link :: "string \<Rightarrow> int \<Rightarrow> string" where
  "reset_link token i =
     ''<a href='' @ [CHR 0x22] @ ''http://localhost:3000/change-password?token='' @ token
     @ ''&userId='' @ number_toString i @ [CHR 0x22]
     @ ''>Click here to reset your password</a>''"

definition forgotPassword ::
  "config \<Rightarrow> env \<Rightarrow> ForgotPasswordInput \<Rightarrow> world \<Rightarrow> (string + bool) \<times> world" where
  "forgotPassword c e forgotPasswordInput w =
     (case User_findOne e (\<lambda>u. u_email u = fp_email forgotPasswordInput) w of
        Inl err \<Rightarrow> (Inl err, w)
      | Inr None \<Rightarrow> (Inr True, w)
      | Inr (Some usr) \<Rightarrow>
          (let token = v4 e
           in case redis_set_EX e (FORGET_PASSWORD_PREFIX c @ token) (u_id usr)
                     (1000 * 60 * 60 * 24 * 3) w of
                Inl err \<Rightarrow> (Inl err, w)
              | Inr w1 \<Rightarrow>
                  (case sendEmail e (fp_email forgotPasswordInput)
                          (reset_link token (u_id usr)) w1 of
                     Inl err \<Rightarrow> (Inl err, w1)
                   | Inr w2 \<Rightarrow> (Inr True, w2))))"

subsection \<open>changePassword\<close>

definition changePassword_try ::
  "config \<Rightarrow> env \<Rightarrow> string \<Rightarrow> string \<Rightarrow> ChangePasswordInput \<Rightarrow> world
   \<Rightarrow> (string + UserMutationResponse) \<times> world" where
  "changePassword_try c e token userId changePasswordInput w =
     (let key = FORGET_PASSWORD_PREFIX c @ token
      in case redis_get e key w of
           Inl err \<Rightarrow> (Inl err, w)
         | Inr None \<Rightarrow>
             (Inr \<lparr>code = 400, success = False,
                   message = ''Invalid or expired password reset token'',
                   errors = Some [\<lparr>field = ''token'',
                                    fe_message = ''Invalid or expired password reset token''\<rparr>],
                   user = None\<rparr>, w)
         | Inr (Some resetPasswordTokenRecord) \<Rightarrow>
             (let userIdNum = parseInt userId
              in case User_findOne_id e userIdNum w of
                   Inl err \<Rightarrow> (Inl err, w)
                 | Inr None \<Rightarrow>
                     (Inr \<lparr>code = 400, success = False, message = ''User no longer exists'',
                           errors = Some [\<lparr>field = ''token'',
                                            fe_message = ''User no longer exists''\<rparr>],
                           user = None\<rparr>, w)
                 | Inr (Some usr) \<Rightarrow>
                     (case argon2_hash_call e (newPassword changePasswordInput) of
                        Inl err \<Rightarrow> (Inl err, w)
                      | Inr updatedPassword \<Rightarrow>
                          (case User_update e userIdNum updatedPassword w of
                             Inl err \<Rightarrow> (Inl err, w)
                           | Inr w1 \<Rightarrow>
                               (case redis_del e key w1 of
                                  Inl err \<Rightarrow> (Inl err, w1)
                                | Inr w2 \<Rightarrow>
                                    (Inr \<lparr>code = 200, success = True,
                                          message = ''User password reset successfully'',
                                          errors = None, user = Some usr\<rparr>,
                                     w2\<lparr>session_userId := Some (u_id usr)\<rparr>))))))"

definition changePassword ::
  "config \<Rightarrow> env \<Rightarrow> string \<Rightarrow> string \<Rightarrow> ChangePasswordInput \<Rightarrow> world
   \<Rightarrow> UserMutationResponse \<times> world" where
  "changePassword c e token userId changePasswordInput w =
     (if length (newPassword changePasswordInput) \<le> 2
      then (\<lparr>code = 400, success = False, message = ''Invalid password'',
             errors = Some [\<lparr>field = ''newPassword'',
                              fe_message = ''Length must be greater than 2''\<rparr>],
             user = None\<rparr>, w)
      else case changePassword_try c e token userId changePasswordInput w of
             (Inr r, w') \<Rightarrow> (r, w')
           | (Inl err, w') \<Rightarrow> (internal_server_error err, w'))"

section \<open>Sequences of calls\<close>

text \<open>
  The requests the server handles one after the other, each with what it draws from
  outside, and the passing of time between them (in seconds).
\<close>

datatype operation =
  Register RegisterInput
  | Login LoginInput
  | Logout
  | ForgotPassword ForgotPasswordInput
  | ChangePassword string string ChangePasswordInput
  | Elapse nat

fun step :: "config \<Rightarrow> env \<times> operation \<Rightarrow> world \<Rightarrow> world" where
  "step c (e, Register registerInput) w = snd (register c e registerInput w)"
| "step c (e, Login loginInput) w = snd (login c e loginInput w)"
| "step c (e, Logout) w = snd (logout c e w)"
| "step c (e, ForgotPassword forgotPasswordInput) w = snd (forgotPassword c e forgotPasswordInput w)"
| "step c (e, ChangePassword token userId changePasswordInput) w =
     snd (changePassword c e token userId changePasswordInput w)"
| "step c (e, Elapse n) w = w\<lparr>clock := clock w + n\<rparr>"

fun run :: "config \<Rightarrow> (env \<times> operation) list \<Rightarrow> world \<Rightarrow> world" where
  "run c [] w = w"
| "run c (x # xs) w = run c xs (step c x w)"

text \<open>A call that stores the token \<open>t\<close>: a \<^verbatim>\<open>forgotPassword\<close> whose UUID is \<open>t\<close>.\<close>

fun issues :: "string \<Rightarrow> env \<times> operation \<Rightarrow> bool" where
  "issues t (e, ForgotPassword forgotPasswordInput) = (v4 e = t)"
| "issues t (e, _) = False"

section \<open>Sample data\<close>

definition sample_config :: config where
  "sample_config =
     \<lparr>COOKIE_NAME = ''qid'', FORGET_PASSWORD_PREFIX = ''forget-password:'',
      validateRegisterInput = (\<lambda>_. None),
      argon2_verify = (\<lambda>digest p. digest = ''$argon2$'' @ p)\<rparr>"

definition calm :: env where
  "calm =
     \<lparr>faults = (\<lambda>_. None), v4 = ''3f2c'',
      argon2_hash = (\<lambda>p. ''$argon2$'' @ p),
      pick = (\<lambda>groups. first_row (concat groups)),
      findOne_NaN = (\<lambda>_. Inr None),
      update_NaN = (\<lambda>_ us. Inr us)\<rparr>"

definition redis_down :: env where
  "redis_down = calm\<lparr>faults := (\<lambda>k. if k = RedisSet then Some ''Connection is closed.'' else None)\<rparr>"

definition store_down :: env where
  "store_down = calm\<lparr>faults := (\<lambda>k. if k = SessionDestroy then Some ''ECONNRESET'' else None)\<rparr>"

text \<open>A table that answers with a row of the last alternative that has one.\<close>

definition last_alternative_first :: env where
  "last_alternative_first = calm\<lparr>pick := (\<lambda>groups. first_row (concat (rev groups)))\<rparr>"

definition alice :: User where
  "alice = \<lparr>u_id = 1, u_username = ''alice'', u_email = ''a@x.com'',
            u_password = ''$argon2$secret123''\<rparr>"

definition bob :: User where
  "bob = \<lparr>u_id = 2, u_username = ''bob'', u_email = ''b@y.com'',
          u_password = ''$argon2$hunter2''\<rparr>"

definition quiet :: world where
  "quiet = \<lparr>users = [alice, bob], cache = Map.empty, clock = 0,
            session_userId = None, cookies = [''qid''], outbox = []\<rparr>"

text \<open>The world after Alice has asked for a reset link.\<close>

definition pending :: world where
  "pending = quiet\<lparr>cache := [''forget-password:3f2c'' \<mapsto> (1, 259200000)]\<rparr>"

text \<open>Calls that follow a password change: another reset request, a minute passing, a login.\<close>

definition later_calls :: "(env \<times> operation) list" where
  "later_calls =
     [(calm\<lparr>v4 := ''77aa''\<rparr>, ForgotPassword \<lparr>fp_email = ''b@y.com''\<rparr>),
      (calm, Elapse 60),
      (calm, Login \<lparr>usernameOrEmail = ''alice'', li_password = ''abc''\<rparr>)]"

section \<open>Auxiliary facts\<close>

lemmas collaborator_defs =
  attempt_def User_findOne_def User_findOne_where_def first_row_def User_findOne_id_def
  User_update_def User_save_def
  redis_get_def redis_set_EX_def redis_del_def argon2_hash_call_def argon2_verify_call_def
  sendEmail_def

lemmas sample_defs =
  sample_config_def calm_def redis_down_def store_down_def last_alternative_first_def
  alice_def bob_def quiet_def pending_def

lemmas parseInt_defs = parseInt_def is_white_space_def digit_value_def to_double_def

lemma find_by_id:
  assumes "B \<in> set us"
  shows "\<exists>usr. find (\<lambda>u. u_id u = u_id B) us = Some usr \<and> u_id usr = u_id B \<and> usr \<in> set us"
proof (cases "find (\<lambda>u. u_id u = u_id B) us")
  case None
  with assms show ?thesis by (auto simp: find_None_iff)
next
  case (Some usr)
  then show ?thesis by (auto simp: find_Some_iff)
qed

lemma User_findOne_id_absent:
  assumes "faults e DbFind = None" and "parseInt userId = Some n"
    and "\<forall>u \<in> set (users w). u_id u \<noteq> n"
  shows "User_findOne_id e (parseInt userId) w = Inr None"
  using assms by (simp add: User_findOne_id_def User_findOne_def attempt_def find_None_iff)

subsection \<open>The lookup with alternatives\<close>





text \<open>
  The table's choice matters: asked for Bob's name with Alice's email, a table that
  answers with a row of the last alternative returns Alice's row, and the field is
  \<open>email\<close> although Bob's row has the username.
\<close>

lemma register_other_table:
  "register sample_config last_alternative_first
     \<lparr>ri_username = ''bob'', ri_email = ''a@x.com'', ri_password = ''other1234''\<rparr> quiet =
     (\<lparr>code = 400, success = False, message = ''Duplicated username or email'',
       errors = Some [\<lparr>field = ''email'', fe_message = ''Email already taken''\<rparr>],
       user = None\<rparr>, quiet)"
  by (simp add: register_def register_try_def collaborator_defs sample_defs)

subsection \<open>Which calls touch the cache\<close>

lemma register_keeps_cache:
  "cache (snd (register c e registerInput w)) = cache w \<and>
   clock (snd (register c e registerInput w)) = clock w"
  by (auto simp: register_def register_try_def collaborator_defs Let_def
           split: option.splits sum.splits prod.splits)

lemma login_keeps_cache:
  "cache (snd (login c e loginInput w)) = cache w \<and>
   clock (snd (login c e loginInput w)) = clock w"
  by (auto simp: login_def login_try_def collaborator_defs Let_def
           split: option.splits sum.splits prod.splits)

lemma logout_keeps_cache:
  "cache (snd (logout c e w)) = cache w \<and> clock (snd (logout c e w)) = clock w"
  by (auto simp: logout_def Let_def split: option.splits)

lemma live_same:
  "cache w' = cache w \<Longrightarrow> clock w' = clock w \<Longrightarrow> live w' key = live w key"
  by (simp add: live_def split: option.splits)

lemma live_shrunk:
  assumes "clock w \<le> clock w'" and "cache w' key = cache w key \<or> cache w' key = None"
    and "live w key = None"
  shows "live w' key = None"
  using assms by (auto simp: live_def split: option.splits if_splits)

lemma register_keeps_live:
  "live (snd (register c e registerInput w)) key = live w key"
  by (rule live_same) (simp_all add: register_keeps_cache)

lemma login_keeps_live:
  "live (snd (login c e loginInput w)) key = live w key"
  by (rule live_same) (simp_all add: login_keeps_cache)

lemma logout_keeps_live:
  "live (snd (logout c e w)) key = live w key"
  by (rule live_same) (simp_all add: logout_keeps_cache)

lemma forgotPassword_other_key:
  assumes "v4 e \<noteq> t"
  shows "live (snd (forgotPassword c e forgotPasswordInput w)) (FORGET_PASSWORD_PREFIX c @ t)
           = live w (FORGET_PASSWORD_PREFIX c @ t)"
proof -
  have "clock (snd (forgotPassword c e forgotPasswordInput w)) = clock w"
    by (simp add: forgotPassword_def collaborator_defs Let_def
             split: option.splits sum.splits)
  moreover have "cache (snd (forgotPassword c e forgotPasswordInput w))
                   (FORGET_PASSWORD_PREFIX c @ t) = cache w (FORGET_PASSWORD_PREFIX c @ t)"
    using assms
    by (simp add: forgotPassword_def collaborator_defs Let_def
             split: option.splits sum.splits)
  ultimately show ?thesis
    by (simp add: live_def split: option.splits)
qed

lemma changePassword_cache:
  "clock (snd (changePassword c e token userId changePasswordInput w)) = clock w \<and>
   (cache (snd (changePassword c e token userId changePasswordInput w)) key = cache w key \<or>
    cache (snd (changePassword c e token userId changePasswordInput w)) key = None)"
  by (simp add: changePassword_def changePassword_try_def collaborator_defs Let_def
           split: option.splits sum.splits)

lemma changePassword_keeps_unusable:
  assumes "live w key = None"
  shows "live (snd (changePassword c e token userId changePasswordInput w)) key = None"
proof (rule live_shrunk [of w])
  show "clock w \<le> clock (snd (changePassword c e token userId changePasswordInput w))"
    by (simp add: changePassword_cache)
  show "cache (snd (changePassword c e token userId changePasswordInput w)) key = cache w key \<or>
        cache (snd (changePassword c e token userId changePasswordInput w)) key = None"
    using changePassword_cache [of c e token userId changePasswordInput w key] by simp
  show "live w key = None"
    by (rule assms)
qed

lemma elapse_keeps_unusable:
  assumes "live w key = None"
  shows "live (w\<lparr>clock := clock w + n\<rparr>) key = None"
proof (rule live_shrunk [of w])
  show "clock w \<le> clock (w\<lparr>clock := clock w + n\<rparr>)"
    by simp
  show "cache (w\<lparr>clock := clock w + n\<rparr>) key = cache w key \<or>
        cache (w\<lparr>clock := clock w + n\<rparr>) key = None"
    by simp
  show "live w key = None"
    by (rule assms)
qed

lemma step_keeps_unusable:
  assumes "live w (FORGET_PASSWORD_PREFIX c @ t) = None" and "\<not> issues t x"
  shows "live (step c x w) (FORGET_PASSWORD_PREFIX c @ t) = None"
proof (cases x)
  case (Pair e op)
  show ?thesis
  proof (cases op)
    case (Register registerInput)
    with Pair assms(1) show ?thesis
      by (simp add: register_keeps_live)
  next
    case (Login loginInput)
    with Pair assms(1) show ?thesis
      by (simp add: login_keeps_live)
  next
    case Logout
    with Pair assms(1) show ?thesis
      by (simp add: logout_keeps_live)
  next
    case (ForgotPassword forgotPasswordInput)
    with Pair assms show ?thesis
      by (simp add: forgotPassword_other_key)
  next
    case (ChangePassword token userId changePasswordInput)
    with Pair assms(1) show ?thesis
      by (simp add: changePassword_keeps_unusable)
  next
    case (Elapse n)
    with Pair assms(1) show ?thesis
      by (simp add: elapse_keeps_unusable)
  qed
qed

lemma run_keeps_unusable:
  "live w (FORGET_PASSWORD_PREFIX c @ t) = None \<Longrightarrow> \<forall>x \<in> set trace. \<not> issues t x \<Longrightarrow>
   live (run c trace w) (FORGET_PASSWORD_PREFIX c @ t) = None"
proof (induction trace arbitrary: w)
  case Nil
  then show ?case by simp
next
  case (Cons x trace)
  from Cons.prems have "live (step c x w) (FORGET_PASSWORD_PREFIX c @ t) = None"
    by (simp add: step_keeps_unusable)
  with Cons.IH Cons.prems(2) show ?case by simp
qed

lemma changePassword_success_consumes:
  assumes "success (fst (changePassword c e token userId changePasswordInput w))"
  shows "live (snd (changePassword c e token userId changePasswordInput w))
              (FORGET_PASSWORD_PREFIX c @ token) = None"
proof -
  have "cache (snd (changePassword c e token userId changePasswordInput w))
          (FORGET_PASSWORD_PREFIX c @ token) = None"
    using assms
    by (simp add: changePassword_def changePassword_try_def collaborator_defs Let_def
                  internal_server_error_def
             split: option.splits sum.splits if_splits)
  then show ?thesis by (simp add: live_def)
qed

lemma changePassword_unusable_token:
  assumes "live w (FORGET_PASSWORD_PREFIX c @ token) = None"
    and "2 < length (newPassword changePasswordInput)"
    and "faults e RedisGet = None"
  shows "changePassword c e token userId changePasswordInput w =
           (\<lparr>code = 400, success = False,
             message = ''Invalid or expired password reset token'',
             errors = Some [\<lparr>field = ''token'',
                              fe_message = ''Invalid or expired password reset token''\<rparr>],
             user = None\<rparr>, w)"
  using assms by (simp add: changePassword_def changePassword_try_def redis_get_def attempt_def)

lemma changePassword_unusable_fails:
  assumes "live w (FORGET_PASSWORD_PREFIX c @ token) = None"
  shows "\<not> success (fst (changePassword c e token userId changePasswordInput w))"
proof (cases "faults e RedisGet")
  case None
  with assms show ?thesis
    by (simp add: changePassword_def changePassword_try_def redis_get_def attempt_def)
next
  case (Some err)
  then show ?thesis
    by (simp add: changePassword_def changePassword_try_def redis_get_def attempt_def
                  internal_server_error_def)
qed

section \<open>register\<close>



section \<open>login\<close>

text \<open>
  C6. When the lookup and the verification complete: the user is looked up by email if
  \<open>usernameOrEmail\<close> contains \<open>@\<close> and by username otherwise; with no user the answer is
  code 400 with a field error on \<open>usernameOrEmail\<close>; with a password that does not verify
  against the stored digest it is code 400 with a field error on \<open>password\<close>, whose
  message differs; otherwise the session's user id is set to the user's id and the
  answer is the success with that user.
\<close>

theorem login_outcomes:
  assumes "faults e DbFind = None" and "faults e Argon2Verify = None"
    and "found = find (if CHR ''@'' \<in> set (usernameOrEmail loginInput)
                       then (\<lambda>u. u_email u = usernameOrEmail loginInput)
                       else (\<lambda>u. u_username u = usernameOrEmail loginInput)) (users w)"
  shows "(found = None \<longrightarrow>
            login c e loginInput w =
              (\<lparr>code = 400, success = False, message = ''User not found'',
                errors = Some [\<lparr>field = ''usernameOrEmail'',
                                 fe_message = ''Username or email incorrect''\<rparr>],
                user = None\<rparr>, w)) \<and>
         (\<forall>u. found = Some u \<and> \<not> argon2_verify c (u_password u) (li_password loginInput) \<longrightarrow>
            login c e loginInput w =
              (\<lparr>code = 400, success = False, message = ''Wrong password'',
                errors = Some [\<lparr>field = ''password'', fe_message = ''Wrong password''\<rparr>],
                user = None\<rparr>, w)) \<and>
         (\<forall>u. found = Some u \<and> argon2_verify c (u_password u) (li_password loginInput) \<longrightarrow>
            login c e loginInput w =
              (\<lparr>code = 200, success = True, message = ''Logged in successfully'',
                errors = None, user = Some u\<rparr>,
               w\<lparr>session_userId := Some (u_id u)\<rparr>))"
  using assms
  by (simp add: login_def login_try_def User_findOne_def argon2_verify_call_def attempt_def)

theorem login_outcomes_witness:
  "login sample_config calm \<lparr>usernameOrEmail = ''a@x.com'', li_password = ''secret123''\<rparr> quiet =
     (\<lparr>code = 200, success = True, message = ''Logged in successfully'',
       errors = None, user = Some alice\<rparr>, quiet\<lparr>session_userId := Some 1\<rparr>) \<and>
   login sample_config calm \<lparr>usernameOrEmail = ''alice'', li_password = ''guess''\<rparr> quiet =
     (\<lparr>code = 400, success = False, message = ''Wrong password'',
       errors = Some [\<lparr>field = ''password'', fe_message = ''Wrong password''\<rparr>],
       user = None\<rparr>, quiet) \<and>
   login sample_config calm \<lparr>usernameOrEmail = ''a@x.com@'', li_password = ''secret123''\<rparr> quiet =
     (\<lparr>code = 400, success = False, message = ''User not found'',
       errors = Some [\<lparr>field = ''usernameOrEmail'',
                        fe_message = ''Username or email incorrect''\<rparr>],
       user = None\<rparr>, quiet)"
  using login_outcomes [of calm _ "\<lparr>usernameOrEmail = ''a@x.com'', li_password = ''secret123''\<rparr>"
                           quiet sample_config, OF _ _ refl]
        login_outcomes [of calm _ "\<lparr>usernameOrEmail = ''alice'', li_password = ''guess''\<rparr>"
                           quiet sample_config, OF _ _ refl]
        login_outcomes [of calm _ "\<lparr>usernameOrEmail = ''a@x.com@'', li_password = ''secret123''\<rparr>"
                           quiet sample_config, OF _ _ refl]
  by (simp add: sample_defs)

section \<open>logout\<close>

text \<open>
  C8. logout clears the session cookie whether or not the session could be destroyed;
  its promise is fulfilled with true when the destroy succeeds and with false when it
  reports an error: in neither case is it rejected or left pending.
\<close>

theorem logout_clears_cookie:
  "COOKIE_NAME c \<notin> set (cookies (snd (logout c e w))) \<and>
   (faults e SessionDestroy = None \<longrightarrow> fst (logout c e w) = Fulfilled True) \<and>
   (faults e SessionDestroy \<noteq> None \<longrightarrow> fst (logout c e w) = Fulfilled False)"
  by (auto simp: logout_def resolve_def Let_def split: option.splits)

theorem logout_clears_cookie_witness:
  "COOKIE_NAME sample_config \<in> set (cookies quiet) \<and>
   faults store_down SessionDestroy \<noteq> None \<and>
   COOKIE_NAME sample_config \<notin> set (cookies (snd (logout sample_config store_down quiet))) \<and>
   fst (logout sample_config store_down quiet) = Fulfilled False \<and>
   fst (logout sample_config calm quiet) = Fulfilled True"
  using logout_clears_cookie [of sample_config store_down quiet]
        logout_clears_cookie [of sample_config calm quiet]
  by (simp add: sample_defs)

section \<open>forgotPassword\<close>

text \<open>
  C1. What the resolver stores for a known email when no collaborator fails: the key
  prefix + token with the user's id, expiring 259200000 seconds from now, the number of
  milliseconds in three days handed to the seconds-based \<open>EX\<close> mode. Three days
  (259200 seconds) later the token is still live.
\<close>

theorem forgotPassword_expiry:
  assumes "find (\<lambda>u. u_email u = fp_email forgotPasswordInput) (users w) = Some usr"
    and "list_all (\<lambda>k. faults e k = None) [DbFind, RedisSet, SendEmail]"
  shows "cache (snd (forgotPassword c e forgotPasswordInput w))
           (FORGET_PASSWORD_PREFIX c @ v4 e) = Some (u_id usr, clock w + 259200000) \<and>
         live ((snd (forgotPassword c e forgotPasswordInput w))\<lparr>clock := clock w + 259200\<rparr>)
           (FORGET_PASSWORD_PREFIX c @ v4 e) = Some (u_id usr)"
  using assms
  by (simp add: forgotPassword_def collaborator_defs live_def Let_def)

theorem forgotPassword_expiry_witness:
  "cache (snd (forgotPassword sample_config calm \<lparr>fp_email = ''a@x.com''\<rparr> quiet))
     ''forget-password:3f2c'' = Some (1, 259200000) \<and>
   (259200000 :: nat) \<noteq> 60 * 60 * 24 * 3 \<and>
   code (fst (changePassword sample_config calm ''3f2c'' ''1'' \<lparr>newPassword = ''abc''\<rparr>
          ((snd (forgotPassword sample_config calm \<lparr>fp_email = ''a@x.com''\<rparr> quiet))
             \<lparr>clock := 60 * 60 * 24 * 3\<rparr>))) = 200"
proof -
  have h1: "find (\<lambda>u. u_email u = fp_email \<lparr>fp_email = ''a@x.com''\<rparr>) (users quiet) = Some alice"
    by (simp add: sample_defs)
  have h2: "list_all (\<lambda>k. faults calm k = None) [DbFind, RedisSet, SendEmail]"
    by (simp add: calm_def)
  have w1: "snd (forgotPassword sample_config calm \<lparr>fp_email = ''a@x.com''\<rparr> quiet) =
            pending\<lparr>outbox := [(''a@x.com'', reset_link ''3f2c'' 1)]\<rparr>"
    by (simp add: forgotPassword_def collaborator_defs sample_defs Let_def)
  have "code (fst (changePassword sample_config calm ''3f2c'' ''1'' \<lparr>newPassword = ''abc''\<rparr>
          (pending\<lparr>outbox := [(''a@x.com'', reset_link ''3f2c'' 1)],
                   clock := 60 * 60 * 24 * 3\<rparr>))) = 200"
    by (simp add: changePassword_def changePassword_try_def collaborator_defs live_def
                  sample_defs parseInt_defs)
  with forgotPassword_expiry [OF h1 h2, of sample_config] show ?thesis
    by (simp add: w1) (simp add: sample_defs)
qed

text \<open>
  C3. Once the lookup by email has completed: with no user the resolver returns true and
  leaves the world as it is (no token, no mail); with a user, a cache write and a mail
  dispatch that both complete, it returns true, the token being stored and the mail
  handed over; a cache write that fails rejects the promise with that error before any
  mail is sent; a mail dispatch that fails rejects it with the token already stored.
\<close>

theorem forgotPassword_outcomes:
  assumes "faults e DbFind = None"
    and "found = find (\<lambda>u. u_email u = fp_email forgotPasswordInput) (users w)"
    and "key = FORGET_PASSWORD_PREFIX c @ v4 e"
  shows "(found = None \<longrightarrow> forgotPassword c e forgotPasswordInput w = (Inr True, w)) \<and>
         (\<forall>usr. found = Some usr \<and> faults e RedisSet = None \<and> faults e SendEmail = None \<longrightarrow>
            forgotPassword c e forgotPasswordInput w =
              (Inr True,
               w\<lparr>cache := (cache w)(key \<mapsto> (u_id usr, clock w + 259200000)),
                 outbox := outbox w @ [(fp_email forgotPasswordInput,
                                        reset_link (v4 e) (u_id usr))]\<rparr>)) \<and>
         (\<forall>usr err. found = Some usr \<and> faults e RedisSet = Some err \<longrightarrow>
            forgotPassword c e forgotPasswordInput w = (Inl err, w)) \<and>
         (\<forall>usr err. found = Some usr \<and> faults e RedisSet = None \<and> faults e SendEmail = Some err \<longrightarrow>
            forgotPassword c e forgotPasswordInput w =
              (Inl err, w\<lparr>cache := (cache w)(key \<mapsto> (u_id usr, clock w + 259200000))\<rparr>))"
  using assms
  by (simp add: forgotPassword_def collaborator_defs Let_def)

theorem forgotPassword_outcomes_witness:
  "forgotPassword sample_config calm \<lparr>fp_email = ''nobody@x.com''\<rparr> quiet = (Inr True, quiet) \<and>
   fst (forgotPassword sample_config calm \<lparr>fp_email = ''a@x.com''\<rparr> quiet) = Inr True \<and>
   forgotPassword sample_config redis_down \<lparr>fp_email = ''a@x.com''\<rparr> quiet =
     (Inl ''Connection is closed.'', quiet)"
  using forgotPassword_outcomes
          [of calm _ "\<lparr>fp_email = ''nobody@x.com''\<rparr>" quiet _ sample_config, OF _ refl refl]
        forgotPassword_outcomes
          [of calm _ "\<lparr>fp_email = ''a@x.com''\<rparr>" quiet _ sample_config, OF _ refl refl]
        forgotPassword_outcomes
          [of redis_down _ "\<lparr>fp_email = ''a@x.com''\<rparr>" quiet _ sample_config, OF _ refl refl]
  by (simp add: sample_defs)

text \<open>
  With Redis refusing the write, the lookup completes, a user matches, and the resolver
  does not return true: its promise rejects.
\<close>

theorem forgotPassword_raises_counterexample:
  "faults redis_down DbFind = None \<and>
   fst (forgotPassword sample_config redis_down \<lparr>fp_email = ''a@x.com''\<rparr> quiet)
     = Inl ''Connection is closed.'' \<and>
   fst (forgotPassword sample_config redis_down \<lparr>fp_email = ''a@x.com''\<rparr> quiet) \<noteq> Inr True"
  by (simp add: forgotPassword_def collaborator_defs sample_defs Let_def)

section \<open>changePassword\<close>

text \<open>
  C7. A new password of at most two characters is rejected with code 400 and the single
  field error on \<open>newPassword\<close>. The answer and the world are the same whatever the token,
  the user id, the cache and the faults of the collaborators are: the cache is not read.
\<close>

theorem changePassword_rejects_short_password:
  "length (newPassword changePasswordInput) \<le> 2 \<Longrightarrow>
   changePassword c e token userId changePasswordInput w =
     (\<lparr>code = 400, success = False, message = ''Invalid password'',
       errors = Some [\<lparr>field = ''newPassword'',
                        fe_message = ''Length must be greater than 2''\<rparr>],
       user = None\<rparr>, w)"
  by (simp add: changePassword_def)

theorem changePassword_rejects_short_password_witness:
  "length (newPassword \<lparr>newPassword = ''ab''\<rparr>) \<le> 2 \<and>
   live pending (FORGET_PASSWORD_PREFIX sample_config @ ''3f2c'') = Some 1 \<and>
   changePassword sample_config calm ''3f2c'' ''1'' \<lparr>newPassword = ''ab''\<rparr> pending =
     (\<lparr>code = 400, success = False, message = ''Invalid password'',
       errors = Some [\<lparr>field = ''newPassword'',
                        fe_message = ''Length must be greater than 2''\<rparr>],
       user = None\<rparr>, pending)"
  using changePassword_rejects_short_password
          [of "\<lparr>newPassword = ''ab''\<rparr>" sample_config calm "''3f2c''" "''1''" pending]
  by (simp add: live_def pending_def quiet_def sample_config_def)

text \<open>
  C2. The id stored under the token is never compared with the \<open>userId\<close> argument. With a
  new password that passes the length check, a token that is live (stored for any id
  \<open>A\<close>), a \<open>userId\<close> that \<^verbatim>\<open>parseInt\<close> reads as the id of an existing user \<open>B\<close>, and no
  collaborator failing, the call succeeds with code 200, every row with \<open>B\<close>'s id gets the
  new digest, the token is deleted and the session's user id is \<open>B\<close>'s.
\<close>

theorem changePassword_any_user:
  assumes "2 < length (newPassword changePasswordInput)"
    and "live w (FORGET_PASSWORD_PREFIX c @ token) = Some A"
    and "B \<in> set (users w)"
    and "parseInt userId = Some (u_id B)"
    and "list_all (\<lambda>k. faults e k = None) [RedisGet, DbFind, Argon2Hash, DbUpdate, RedisDel]"
  shows "\<exists>usr. u_id usr = u_id B \<and> usr \<in> set (users w) \<and>
           changePassword c e token userId changePasswordInput w =
             (\<lparr>code = 200, success = True, message = ''User password reset successfully'',
               errors = None, user = Some usr\<rparr>,
              w\<lparr>users := map (set_password (u_id B)
                                (argon2_hash e (newPassword changePasswordInput))) (users w),
                cache := (cache w)(FORGET_PASSWORD_PREFIX c @ token := None),
                session_userId := Some (u_id B)\<rparr>) \<and>
           B\<lparr>u_password := argon2_hash e (newPassword changePasswordInput)\<rparr>
             \<in> set (users (snd (changePassword c e token userId changePasswordInput w)))"
proof -
  obtain usr where usr: "find (\<lambda>u. u_id u = u_id B) (users w) = Some usr"
    "u_id usr = u_id B" "usr \<in> set (users w)"
    using find_by_id [OF assms(3)] by blast
  have run: "changePassword c e token userId changePasswordInput w =
             (\<lparr>code = 200, success = True, message = ''User password reset successfully'',
               errors = None, user = Some usr\<rparr>,
              w\<lparr>users := map (set_password (u_id B)
                                (argon2_hash e (newPassword changePasswordInput))) (users w),
                cache := (cache w)(FORGET_PASSWORD_PREFIX c @ token := None),
                session_userId := Some (u_id B)\<rparr>)"
    using assms(1,2,4,5) usr(1,2)
    by (simp add: changePassword_def changePassword_try_def collaborator_defs)
  have "set_password (u_id B) (argon2_hash e (newPassword changePasswordInput)) B
          \<in> set (map (set_password (u_id B) (argon2_hash e (newPassword changePasswordInput)))
                   (users w))"
    using assms(3) by simp
  then have "B\<lparr>u_password := argon2_hash e (newPassword changePasswordInput)\<rparr>
          \<in> set (users (snd (changePassword c e token userId changePasswordInput w)))"
    by (simp add: run set_password_def)
  with run usr(2,3) show ?thesis by blast
qed

theorem changePassword_any_user_witness:
  "live pending (FORGET_PASSWORD_PREFIX sample_config @ ''3f2c'') = Some 1 \<and>
   bob \<in> set (users pending) \<and> parseInt ''2'' = Some (u_id bob) \<and> u_id bob \<noteq> 1 \<and>
   bob\<lparr>u_password := argon2_hash calm ''abc''\<rparr>
     \<in> set (users (snd (changePassword sample_config calm ''3f2c'' ''2''
                           \<lparr>newPassword = ''abc''\<rparr> pending)))"
proof -
  have h1: "2 < length (newPassword \<lparr>newPassword = ''abc''\<rparr>)"
    by simp
  have h2: "live pending (FORGET_PASSWORD_PREFIX sample_config @ ''3f2c'') = Some 1"
    by (simp add: live_def sample_defs)
  have h3: "bob \<in> set (users pending)"
    by (simp add: sample_defs)
  have h4: "parseInt ''2'' = Some (u_id bob)"
    by (simp add: parseInt_defs bob_def)
  have h5: "list_all (\<lambda>k. faults calm k = None) [RedisGet, DbFind, Argon2Hash, DbUpdate, RedisDel]"
    by (simp add: calm_def)
  have "u_id bob \<noteq> 1"
    by (simp add: bob_def)
  with h2 h3 h4 changePassword_any_user [OF h1 h2 h3 h4 h5] show ?thesis
    by auto
qed

text \<open>
  C9. With a new password that passes the length check and a live token, when the lookup
  of the parsed \<open>userId\<close> completes and finds no user (as it does for a number that is
  no row's id), the answer is code 400 with the single field error
  \<open>User no longer exists\<close> on the field \<open>token\<close>, not \<open>userId\<close>, and nothing changes.
\<close>

theorem changePassword_missing_user:
  assumes "2 < length (newPassword changePasswordInput)"
    and "live w (FORGET_PASSWORD_PREFIX c @ token) = Some A"
    and "faults e RedisGet = None"
    and "User_findOne_id e (parseInt userId) w = Inr None"
  shows "changePassword c e token userId changePasswordInput w =
           (\<lparr>code = 400, success = False, message = ''User no longer exists'',
             errors = Some [\<lparr>field = ''token'', fe_message = ''User no longer exists''\<rparr>],
             user = None\<rparr>, w)"
  using assms by (simp add: changePassword_def changePassword_try_def redis_get_def attempt_def)

theorem changePassword_missing_user_witness:
  "2 < length (newPassword \<lparr>newPassword = ''abc''\<rparr>) \<and>
   live pending (FORGET_PASSWORD_PREFIX sample_config @ ''3f2c'') = Some 1 \<and>
   faults calm RedisGet = None \<and>
   User_findOne_id calm (parseInt ''7'') pending = Inr None \<and>
   changePassword sample_config calm ''3f2c'' ''7'' \<lparr>newPassword = ''abc''\<rparr> pending =
     (\<lparr>code = 400, success = False, message = ''User no longer exists'',
       errors = Some [\<lparr>field = ''token'', fe_message = ''User no longer exists''\<rparr>],
       user = None\<rparr>, pending)"
  using changePassword_missing_user
          [of "\<lparr>newPassword = ''abc''\<rparr>" pending sample_config "''3f2c''" 1 calm "''7''"]
  by (simp add: live_def sample_defs parseInt_defs collaborator_defs)

text \<open>
  C10. Whenever changePassword answers with code 400, the world it leaves is the one it
  found: no password, no cache entry and no session has changed.
\<close>

theorem changePassword_400_leaves_world:
  "code (fst (changePassword c e token userId changePasswordInput w)) = 400 \<Longrightarrow>
   snd (changePassword c e token userId changePasswordInput w) = w"
  by (auto simp: changePassword_def changePassword_try_def Let_def internal_server_error_def
           split: sum.splits option.splits if_splits prod.splits)

theorem changePassword_400_leaves_world_witness:
  "code (fst (changePassword sample_config calm ''0000'' ''1''
                \<lparr>newPassword = ''abc''\<rparr> pending)) = 400 \<and>
   snd (changePassword sample_config calm ''0000'' ''1'' \<lparr>newPassword = ''abc''\<rparr> pending)
     = pending"
proof -
  have "code (fst (changePassword sample_config calm ''0000'' ''1''
                \<lparr>newPassword = ''abc''\<rparr> pending)) = 400"
    by (simp add: changePassword_def changePassword_try_def redis_get_def attempt_def
                  live_def sample_defs)
  with changePassword_400_leaves_world
         [of sample_config calm "''0000''" "''1''" "\<lparr>newPassword = ''abc''\<rparr>" pending]
  show ?thesis by simp
qed

text \<open>
  C4. A token is used once. After a successful changePassword with the token \<open>T\<close>, and
  after any later calls and any passing of time in which no forgotPassword draws \<open>T\<close>
  again, no changePassword with \<open>T\<close> succeeds; when its new password passes the length
  check and the cache can be read, the answer is code 400 with the field error
  \<open>Invalid or expired password reset token\<close> on the field \<open>token\<close>, and the world is
  left as it was.
\<close>

theorem reset_token_single_use:
  assumes "success (fst (changePassword c e0 T userId0 changePasswordInput0 w))"
    and "list_all (\<lambda>x. \<not> issues T x) trace"
    and "w' = run c trace (snd (changePassword c e0 T userId0 changePasswordInput0 w))"
  shows "\<not> success (fst (changePassword c e T userId changePasswordInput w')) \<and>
         (2 < length (newPassword changePasswordInput) \<and> faults e RedisGet = None \<longrightarrow>
            changePassword c e T userId changePasswordInput w' =
              (\<lparr>code = 400, success = False,
                message = ''Invalid or expired password reset token'',
                errors = Some [\<lparr>field = ''token'',
                                 fe_message = ''Invalid or expired password reset token''\<rparr>],
                user = None\<rparr>, w'))"
proof -
  let ?w1 = "snd (changePassword c e0 T userId0 changePasswordInput0 w)"
  have "live ?w1 (FORGET_PASSWORD_PREFIX c @ T) = None"
    using assms(1) by (rule changePassword_success_consumes)
  moreover have "\<forall>x \<in> set trace. \<not> issues T x"
    using assms(2) by (simp add: list_all_iff)
  ultimately have "live (run c trace ?w1) (FORGET_PASSWORD_PREFIX c @ T) = None"
    by (rule run_keeps_unusable)
  then have dead: "live w' (FORGET_PASSWORD_PREFIX c @ T) = None"
    by (simp add: assms(3))
  from dead have "\<not> success (fst (changePassword c e T userId changePasswordInput w'))"
    by (rule changePassword_unusable_fails)
  moreover from dead have "2 < length (newPassword changePasswordInput) \<and> faults e RedisGet = None \<longrightarrow>
            changePassword c e T userId changePasswordInput w' =
              (\<lparr>code = 400, success = False,
                message = ''Invalid or expired password reset token'',
                errors = Some [\<lparr>field = ''token'',
                                 fe_message = ''Invalid or expired password reset token''\<rparr>],
                user = None\<rparr>, w')"
    by (simp add: changePassword_unusable_token)
  ultimately show ?thesis by simp
qed

theorem reset_token_single_use_witness:
  "success (fst (changePassword sample_config calm ''3f2c'' ''1''
                   \<lparr>newPassword = ''abc''\<rparr> pending)) \<and>
   list_all (\<lambda>x. \<not> issues ''3f2c'' x) later_calls \<and>
   fst (changePassword sample_config calm ''3f2c'' ''1'' \<lparr>newPassword = ''xyz''\<rparr>
         (run sample_config later_calls
            (snd (changePassword sample_config calm ''3f2c'' ''1''
                    \<lparr>newPassword = ''abc''\<rparr> pending)))) =
     \<lparr>code = 400, success = False,
      message = ''Invalid or expired password reset token'',
      errors = Some [\<lparr>field = ''token'',
                       fe_message = ''Invalid or expired password reset token''\<rparr>],
      user = None\<rparr>"
proof -
  have h1: "success (fst (changePassword sample_config calm ''3f2c'' ''1''
                            \<lparr>newPassword = ''abc''\<rparr> pending))"
    by (simp add: changePassword_def changePassword_try_def collaborator_defs live_def
                  sample_defs parseInt_defs)
  have h2: "list_all (\<lambda>x. \<not> issues ''3f2c'' x) later_calls"
    by (simp add: later_calls_def calm_def)
  have h4: "faults calm RedisGet = None"
    by (simp add: calm_def)
  from h1 h2 h4 reset_token_single_use [OF h1 h2 refl, of calm "''1''" "\<lparr>newPassword = ''xyz''\<rparr>"]
  show ?thesis
    by simp
qed

end
